theory Spec2Isabelle
  imports Main
begin

section \<open>Error classification of the core API (core/errors.go)\<close>

text \<open>
  The file under verification maps an error value to the HTTP status and the JSON body
  sent to the client. It consists of two Go structs, three package-level tables and one
  function, \<^verbatim>\<open>errInfo\<close>. They are embedded below in the order of the source.
\<close>

subsection \<open>The structs\<close>

text \<open>
  \<^verbatim>\<open>type errorInfo struct { HTTPStatus int; ChainCode string; Message string }\<close>
\<close>

record errorInfo =
  HTTPStatus :: int
  ChainCode :: string
  Message :: string

text \<open>
  \<^verbatim>\<open>type detailedError struct { errorInfo; Detail string; Temporary bool }\<close>:
  the embedded struct is the parent record, so \<open>errorInfo.truncate\<close> reads the
  embedded \<^verbatim>\<open>errorInfo\<close> of a \<^verbatim>\<open>detailedError\<close>.
\<close>

record detailedError = errorInfo +
  Detail :: string
  Temporary :: bool

subsection \<open>Error values\<close>

text \<open>
  The keys of \<^verbatim>\<open>errorInfoTab\<close> are values of the interface type \<^verbatim>\<open>error\<close>.
  The table names 45 package-level error variables; their declarations live in other
  packages. Each is one constructor here, named as in the source with the package
  qualifier joined by an underscore. Go compares interface values by dynamic type and
  value, so the constructors being distinct says that the variables hold distinct
  values.

  Three more constructors stand for every other value a terminal error can be:
  the nil interface, a value of a comparable dynamic type that is none of the 45
  (told apart by a label), and a value that cannot be hashed: its dynamic type, or that
  of a value held inside it, is not comparable, as for a struct that embeds a slice.
\<close>

datatype cause =
    context_DeadlineExceeded
  | pg_ErrUserInputNotFound
  | httpjson_ErrBadRequest
  | errBadReqHeader
  | errNotFound
  | errRateLimited
  | errLeaderElection
  | errNotAuthenticated
  | errUnconfigured
  | errAlreadyConfigured
  | errBadGenerator
  | errBadBlockPub
  | rpc_ErrWrongNetwork
  | protocol_ErrTheDistantFuture
  | errBadSignerURL
  | errBadSignerPubkey
  | errBadQuorum
  | errProdReset
  | errNoClientTokens
  | blocksigner_ErrConsensusChange
  | signers_ErrBadQuorum
  | signers_ErrBadXPub
  | signers_ErrNoXPubs
  | signers_ErrBadType
  | accesstoken_ErrBadID
  | accesstoken_ErrBadType
  | accesstoken_ErrDuplicateID
  | errCurrentToken
  | query_ErrBadAfter
  | query_ErrParameterCountMismatch
  | filter_ErrBadFilter
  | txbuilder_ErrBadRefData
  | errBadActionType
  | errBadAlias
  | errBadAction
  | txbuilder_ErrMissingRawTx
  | txbuilder_ErrBadInstructionCount
  | txbuilder_ErrBadTxInputIdx
  | txbuilder_ErrBadWitnessComponent
  | txbuilder_ErrRejected
  | txbuilder_ErrNoTxSighashCommitment
  | utxodb_ErrInsufficient
  | utxodb_ErrReserved
  | mockhsm_ErrDuplicateKeyAlias
  | mockhsm_ErrInvalidAfter
  | nil_error
  | Comparable string
  | Unhashable string

text \<open>
  Modelled from the spec: the package \<^verbatim>\<open>chain/errors\<close> (\<^verbatim>\<open>errors.Root\<close>,
  \<^verbatim>\<open>errors.Detail\<close> and the wrapping of errors) is not part of the file.
  Following the spec (4.2, 4.3 step 3 and the glossary), an error value is a terminal
  cause under any number of wrapping layers; a layer carries the detail text its
  wrapping site attached, if it attached one. \<open>errors_Root\<close> unwraps every layer;
  \<open>errors_Detail\<close> is the text attached to the error it is given, and the empty
  string when there is none.
\<close>

datatype error =
    Terminal cause
  | Wrap error "string option"

fun errors_Root :: "error \<Rightarrow> cause" where
  "errors_Root (Terminal c) = c"
| "errors_Root (Wrap e d) = errors_Root e"

fun errors_Detail :: "error \<Rightarrow> string" where
  "errors_Detail (Terminal c) = ''''"
| "errors_Detail (Wrap e None) = ''''"
| "errors_Detail (Wrap e (Some text)) = text"

subsection \<open>Go maps\<close>

text \<open>
  A Go map is a partial function. Indexing with a key that cannot be
  hashed is a run-time panic (\<^verbatim>\<open>runtime error: hash of unhashable type\<close>), also
  when the key is not in the map.
\<close>

datatype panic = HashOfUnhashableType

definition hashable :: "cause \<Rightarrow> bool" where
  "hashable k = (case k of Unhashable t \<Rightarrow> False | _ \<Rightarrow> True)"

text \<open>\<^verbatim>\<open>v, ok := m[k]\<close> on a map keyed by \<^verbatim>\<open>error\<close>: \<open>None\<close> is \<^verbatim>\<open>ok == false\<close>.\<close>

definition mapaccess2 :: "(cause \<rightharpoonup> 'v) \<Rightarrow> cause \<Rightarrow> panic + 'v option" where
  "mapaccess2 m k = (if hashable k then Inr (m k) else Inl HashOfUnhashableType)"

text \<open>\<^verbatim>\<open>m[k]\<close> on a \<^verbatim>\<open>map[string]bool\<close>: a missing key reads as \<^verbatim>\<open>false\<close>.\<close>

definition index_bool :: "(string \<rightharpoonup> bool) \<Rightarrow> string \<Rightarrow> bool" where
  "index_bool m k = (case m k of None \<Rightarrow> False | Some b \<Rightarrow> b)"

subsection \<open>The package-level tables\<close>

definition temporaryErrorCodes :: "string \<rightharpoonup> bool" where
  "temporaryErrorCodes = map_of
     [(''CH000'', True),
      (''CH001'', True),
      (''CH761'', True)]"

definition infoInternal :: errorInfo where
  "infoInternal = \<lparr>HTTPStatus = 500, ChainCode = ''CH000'', Message = ''Chain API Error''\<rparr>"

text \<open>
  The map literal of \<^verbatim>\<open>errorInfoTab\<close> is written in nine blocks, each under a comment
  that names its namespace. The blocks are kept apart here, in source order, so that an
  entry's namespace can be read off the table.
\<close>

datatype namespace =
    General | Core | Signers | AccessToken | Query | Build | Submit | AccountAction | MockHSM

abbreviation EI :: "int \<Rightarrow> string \<Rightarrow> string \<Rightarrow> errorInfo" where
  "EI s c m \<equiv> \<lparr>HTTPStatus = s, ChainCode = c, Message = m\<rparr>"

definition errorInfoTab_blocks :: "(namespace \<times> (cause \<times> errorInfo) list) list" where
  "errorInfoTab_blocks =
   [(General,
      [(context_DeadlineExceeded, EI 408 ''CH001'' ''Request timed out''),
       (pg_ErrUserInputNotFound, EI 400 ''CH002'' ''Not found''),
       (httpjson_ErrBadRequest, EI 400 ''CH003'' ''Invalid request body''),
       (errBadReqHeader, EI 400 ''CH004'' ''Invalid request header''),
       (errNotFound, EI 404 ''CH006'' ''Not found''),
       (errRateLimited, EI 429 ''CH007'' ''Request limit exceeded''),
       (errLeaderElection, EI 503 ''CH008'' ''Electing a new leader for the core; try again soon''),
       (errNotAuthenticated, EI 401 ''CH009'' ''Request could not be authenticated'')]),
    (Core,
      [(errUnconfigured, EI 400 ''CH100'' ''This core still needs to be configured''),
       (errAlreadyConfigured, EI 400 ''CH101'' ''This core has already been configured''),
       (errBadGenerator, EI 400 ''CH102'' ''Generator URL returned an invalid response''),
       (errBadBlockPub, EI 400 ''CH103'' ''Provided Block XPub is invalid''),
       (rpc_ErrWrongNetwork, EI 502 ''CH104'' ''A peer core is operating on a different blockchain network''),
       (protocol_ErrTheDistantFuture, EI 400 ''CH105'' ''Requested height is too far ahead''),
       (errBadSignerURL, EI 400 ''CH106'' ''Block signer URL is invalid''),
       (errBadSignerPubkey, EI 400 ''CH107'' ''Block signer pubkey is invalid''),
       (errBadQuorum, EI 400 ''CH108'' ''Quorum must be greater than 0 if there are signers''),
       (errProdReset, EI 400 ''CH110'' ''Reset can only be called in a development system''),
       (errNoClientTokens, EI 400 ''CH120'' ''Cannot enable client authentication with no client tokens''),
       (blocksigner_ErrConsensusChange, EI 400 ''CH150'' ''Refuse to sign block with consensus change'')]),
    (Signers,
      [(signers_ErrBadQuorum, EI 400 ''CH200'' ''Quorum must be greater than 1 and less than or equal to the length of xpubs''),
       (signers_ErrBadXPub, EI 400 ''CH201'' ''Invalid xpub format''),
       (signers_ErrNoXPubs, EI 400 ''CH202'' ''At least one xpub is required''),
       (signers_ErrBadType, EI 400 ''CH203'' ''Retrieved type does not match expected type'')]),
    (AccessToken,
      [(accesstoken_ErrBadID, EI 400 ''CH300'' ''Malformed or empty access token id''),
       (accesstoken_ErrBadType, EI 400 ''CH301'' ''Access tokens must be type client or network''),
       (accesstoken_ErrDuplicateID, EI 400 ''CH302'' ''Access token id is already in use''),
       (errCurrentToken, EI 400 ''CH310'' ''The access token used to authenticate this request cannot be deleted'')]),
    (Query,
      [(query_ErrBadAfter, EI 400 ''CH600'' ''Malformed pagination parameter `after`''),
       (query_ErrParameterCountMismatch, EI 400 ''CH601'' ''Incorrect number of parameters to filter''),
       (filter_ErrBadFilter, EI 400 ''CH602'' ''Malformed query filter'')]),
    (Build,
      [(txbuilder_ErrBadRefData, EI 400 ''CH700'' ''Reference data does not match previous transaction's reference data''),
       (errBadActionType, EI 400 ''CH701'' ''Invalid action type''),
       (errBadAlias, EI 400 ''CH702'' ''Invalid alias on action''),
       (errBadAction, EI 400 ''CH703'' ''Invalid action object'')]),
    (Submit,
      [(txbuilder_ErrMissingRawTx, EI 400 ''CH730'' ''Missing raw transaction''),
       (txbuilder_ErrBadInstructionCount, EI 400 ''CH731'' ''Too many signing instructions in template for transaction''),
       (txbuilder_ErrBadTxInputIdx, EI 400 ''CH732'' ''Invalid transaction input index''),
       (txbuilder_ErrBadWitnessComponent, EI 400 ''CH733'' ''Invalid witness component''),
       (txbuilder_ErrRejected, EI 400 ''CH735'' ''Transaction rejected''),
       (txbuilder_ErrNoTxSighashCommitment, EI 400 ''CH736'' ''Transaction is not final, additional actions still allowed'')]),
    (AccountAction,
      [(utxodb_ErrInsufficient, EI 400 ''CH760'' ''Insufficient funds for tx''),
       (utxodb_ErrReserved, EI 400 ''CH761'' ''Some outputs are reserved; try again'')]),
    (MockHSM,
      [(mockhsm_ErrDuplicateKeyAlias, EI 400 ''CH800'' ''Duplicate alias for Mock HSM key''),
       (mockhsm_ErrInvalidAfter, EI 400 ''CH801'' ''Invalid `after` in query'')])]"

definition errorInfoTab_entries :: "(cause \<times> errorInfo) list" where
  "errorInfoTab_entries = concat (map snd errorInfoTab_blocks)"

text \<open>
  The map itself. A Go map literal keeps the last entry of a repeated key and \<open>map_of\<close>
  the first; the keys of the literal are pairwise distinct (lemma \<open>errorInfoTab_keys_distinct\<close>
  below), so the two agree.
\<close>

definition errorInfoTab :: "cause \<rightharpoonup> errorInfo" where
  "errorInfoTab = map_of errorInfoTab_entries"

subsection \<open>errInfo\<close>

text \<open>
  The statements of \<^verbatim>\<open>errInfo\<close> that run after the \<^verbatim>\<open>defer\<close>: the lookup, the
  fallback to \<^verbatim>\<open>infoInternal\<close>, the composite literal of the body and the return.
  The lookup is the one statement that can panic; a panic leaves the statements after it
  unexecuted.
\<close>

definition errInfo_deferred_scope :: "error \<Rightarrow> cause \<Rightarrow> panic + (detailedError \<times> errorInfo)" where
  "errInfo_deferred_scope err root =
     (case mapaccess2 errorInfoTab root of
        Inl p \<Rightarrow> Inl p
      | Inr found \<Rightarrow>
          (let info = (case found of Some i \<Rightarrow> i | None \<Rightarrow> infoInternal);
               body = \<lparr>HTTPStatus = HTTPStatus info, ChainCode = ChainCode info,
                       Message = Message info,
                       Detail = errors_Detail err,
                       Temporary = index_bool temporaryErrorCodes (ChainCode info)\<rparr>
           in Inr (body, info)))"

text \<open>
  \<^verbatim>\<open>errInfo\<close>: the root is computed first, then the deferred function is installed.
  When the statements after it panic, \<^verbatim>\<open>recover()\<close> is not nil, the deferred
  function overwrites both named results and the call returns normally. When they do
  not, \<^verbatim>\<open>recover()\<close> is nil and the results stand. The result type keeps the panic
  as a possible outcome of the call, so that its absence is a theorem and not a typing
  fact.
\<close>

definition errInfo :: "error \<Rightarrow> panic + (detailedError \<times> errorInfo)" where
  "errInfo err =
     (let root = errors_Root err in
      case errInfo_deferred_scope err root of
        Inl p \<Rightarrow>
          Inr (\<lparr>HTTPStatus = HTTPStatus infoInternal, ChainCode = ChainCode infoInternal,
                Message = Message infoInternal, Detail = '''', Temporary = True\<rparr>,
               infoInternal)
      | Inr r \<Rightarrow> Inr r)"

subsection \<open>errInfo as a program over the package variables\<close>

text \<open>
  \<^verbatim>\<open>temporaryErrorCodes\<close>, \<^verbatim>\<open>infoInternal\<close> and \<^verbatim>\<open>errorInfoTab\<close> are declared
  with \<^verbatim>\<open>var\<close>: they are mutable package state, and \<^verbatim>\<open>errInfo\<close> reads them when it
  runs. To say what a call does to that state, the function is written a second time,
  statement by statement, over a store that holds the three variables and the two named
  results. A call starts from any values of the variables, not only the initial ones.
\<close>

record package_vars =
  var_temporaryErrorCodes :: "string \<rightharpoonup> bool"
  var_infoInternal :: errorInfo
  var_errorInfoTab :: "cause \<rightharpoonup> errorInfo"

text \<open>The values the \<^verbatim>\<open>var\<close> block gives the variables at package initialisation.\<close>

definition package_init :: package_vars where
  "package_init =
     \<lparr>var_temporaryErrorCodes = temporaryErrorCodes,
      var_infoInternal = infoInternal,
      var_errorInfoTab = errorInfoTab\<rparr>"

record errInfo_store =
  vars :: package_vars
  res_body :: detailedError
  res_info :: errorInfo

text \<open>Named results start at the zero value of their type.\<close>

definition zero_errorInfo :: errorInfo where
  "zero_errorInfo = \<lparr>HTTPStatus = 0, ChainCode = '''', Message = ''''\<rparr>"

definition zero_detailedError :: detailedError where
  "zero_detailedError =
     \<lparr>HTTPStatus = 0, ChainCode = '''', Message = '''', Detail = '''', Temporary = False\<rparr>"

text \<open>
  \<^verbatim>\<open>info, ok := errorInfoTab[root]\<close>: assigns the named result \<^verbatim>\<open>info\<close> (the zero
  value when the key is missing) and declares \<^verbatim>\<open>ok\<close>; a panic leaves the store as
  it was.
\<close>

definition stmt_lookup :: "cause \<Rightarrow> errInfo_store \<Rightarrow> panic + (bool \<times> errInfo_store)" where
  "stmt_lookup root s =
     (case mapaccess2 (var_errorInfoTab (vars s)) root of
        Inl p \<Rightarrow> Inl p
      | Inr None \<Rightarrow> Inr (False, s\<lparr>res_info := zero_errorInfo\<rparr>)
      | Inr (Some i) \<Rightarrow> Inr (True, s\<lparr>res_info := i\<rparr>))"

text \<open>\<^verbatim>\<open>if !ok { info = infoInternal }\<close>\<close>

definition stmt_fallback :: "bool \<Rightarrow> errInfo_store \<Rightarrow> errInfo_store" where
  "stmt_fallback ok s = (if \<not> ok then s\<lparr>res_info := var_infoInternal (vars s)\<rparr> else s)"

text \<open>
  \<^verbatim>\<open>body = detailedError{errorInfo: info, Detail: errors.Detail(err),
  Temporary: temporaryErrorCodes[info.ChainCode]}\<close>
\<close>

definition stmt_body :: "error \<Rightarrow> errInfo_store \<Rightarrow> errInfo_store" where
  "stmt_body err s =
     s\<lparr>res_body :=
         \<lparr>HTTPStatus = HTTPStatus (res_info s), ChainCode = ChainCode (res_info s),
          Message = Message (res_info s),
          Detail = errors_Detail err,
          Temporary = index_bool (var_temporaryErrorCodes (vars s)) (ChainCode (res_info s))\<rparr>\<rparr>"

text \<open>
  The deferred function when \<^verbatim>\<open>recover()\<close> is not nil:
  \<^verbatim>\<open>info = infoInternal; body = detailedError{infoInternal, "", true}\<close>
\<close>

definition stmt_recover :: "errInfo_store \<Rightarrow> errInfo_store" where
  "stmt_recover s =
     (let s1 = s\<lparr>res_info := var_infoInternal (vars s)\<rparr>
      in s1\<lparr>res_body :=
             \<lparr>HTTPStatus = HTTPStatus (var_infoInternal (vars s1)),
              ChainCode = ChainCode (var_infoInternal (vars s1)),
              Message = Message (var_infoInternal (vars s1)),
              Detail = '''', Temporary = True\<rparr>\<rparr>)"

text \<open>
  One call: the results it returns and the package variables it leaves behind. The
  lookup is the first statement after the \<^verbatim>\<open>defer\<close>, so the deferred function that
  recovers runs on the store the call started with.
\<close>

definition errInfo_call ::
  "package_vars \<Rightarrow> error \<Rightarrow> (detailedError \<times> errorInfo) \<times> package_vars" where
  "errInfo_call g err =
     (let s0 = \<lparr>vars = g, res_body = zero_detailedError, res_info = zero_errorInfo\<rparr>;
          root = errors_Root err;
          s' = (case stmt_lookup root s0 of
                  Inl p \<Rightarrow> stmt_recover s0
                | Inr (ok, s1) \<Rightarrow> stmt_body err (stmt_fallback ok s1))
      in ((res_body s', res_info s'), vars s'))"

text \<open>
  Calls made one after another: each starts from the package variables the one before
  it left.
\<close>

fun errInfo_calls ::
  "package_vars \<Rightarrow> error list \<Rightarrow> (detailedError \<times> errorInfo) list \<times> package_vars" where
  "errInfo_calls g [] = ([], g)"
| "errInfo_calls g (e # es) =
     (let (r, g1) = errInfo_call g e;
          (rs, g2) = errInfo_calls g1 es
      in (r # rs, g2))"

subsection \<open>Vocabulary of the specification\<close>

text \<open>
  The spec's TemporarySet: \<^verbatim>\<open>temporaryErrorCodes\<close> is a \<^verbatim>\<open>map[string]bool\<close> used as
  a set, whose members are the keys that read as \<^verbatim>\<open>true\<close>.
\<close>

definition TemporarySet :: "string set" where
  "TemporarySet = {c. index_bool temporaryErrorCodes c}"

text \<open>
  The numeric part of a code: the three decimal digits after the prefix \<^verbatim>\<open>CH\<close>.
  A string of any other shape has none.
\<close>

definition digit :: "char \<rightharpoonup> nat" where
  "digit = map_of
     [(CHR ''0'', 0), (CHR ''1'', 1), (CHR ''2'', 2), (CHR ''3'', 3), (CHR ''4'', 4),
      (CHR ''5'', 5), (CHR ''6'', 6), (CHR ''7'', 7), (CHR ''8'', 8), (CHR ''9'', 9)]"

fun decimal :: "nat \<Rightarrow> string \<Rightarrow> nat option" where
  "decimal acc [] = Some acc"
| "decimal acc (c # cs) =
     (case digit c of None \<Rightarrow> None | Some d \<Rightarrow> decimal (10 * acc + d) cs)"

definition code_number :: "string \<Rightarrow> nat option" where
  "code_number code =
     (case code of
        a # b # ds \<Rightarrow>
          if a = CHR ''C'' \<and> b = CHR ''H'' \<and> length ds = 3 then decimal 0 ds else None
      | _ \<Rightarrow> None)"

text \<open>
  The range each namespace reserves, as the comments over the blocks of the table give
  it (\<^verbatim>\<open>0xx\<close>, \<^verbatim>\<open>2xx\<close>, \<^verbatim>\<open>3xx\<close>, \<^verbatim>\<open>6xx\<close>, \<^verbatim>\<open>70x\<close>, \<^verbatim>\<open>73x\<close>, \<^verbatim>\<open>76x\<close>, \<^verbatim>\<open>80x\<close>);
  the comment over the core block names no range, and the spec gives it the 100s.
  Bounds are inclusive.
\<close>

fun namespace_range :: "namespace \<Rightarrow> nat \<times> nat" where
  "namespace_range General = (0, 99)"
| "namespace_range Core = (100, 199)"
| "namespace_range Signers = (200, 299)"
| "namespace_range AccessToken = (300, 399)"
| "namespace_range Query = (600, 699)"
| "namespace_range Build = (700, 709)"
| "namespace_range Submit = (730, 739)"
| "namespace_range AccountAction = (760, 769)"
| "namespace_range MockHSM = (800, 809)"

definition in_namespace :: "namespace \<Rightarrow> string \<Rightarrow> bool" where
  "in_namespace ns code =
     (case code_number code of
        None \<Rightarrow> False
      | Some n \<Rightarrow> fst (namespace_range ns) \<le> n \<and> n \<le> snd (namespace_range ns))"

section \<open>Properties\<close>

subsection \<open>The tables\<close>

text \<open>No key is written twice in the literal, so no entry overrides another.\<close>

lemma errorInfoTab_keys_distinct: "distinct (map fst errorInfoTab_entries)"
  by (simp add: errorInfoTab_entries_def errorInfoTab_blocks_def)

lemma errorInfoTab_entry: "(k, e) \<in> set errorInfoTab_entries \<Longrightarrow> errorInfoTab k = Some e"
  unfolding errorInfoTab_def using errorInfoTab_keys_distinct by (rule map_of_is_SomeI)

lemma errorInfoTab_Unhashable: "errorInfoTab (Unhashable t) = None"
  by (simp add: errorInfoTab_def errorInfoTab_entries_def errorInfoTab_blocks_def)

text \<open>
  Every key of the table can be hashed: building the map at package initialisation would
  panic otherwise.
\<close>

lemma errorInfoTab_hashable: "errorInfoTab k = Some e \<Longrightarrow> hashable k"
  by (cases k) (simp_all add: hashable_def errorInfoTab_Unhashable)

lemma TemporarySet_eq: "TemporarySet = {''CH000'', ''CH001'', ''CH761''}"
  by (auto simp: TemporarySet_def index_bool_def temporaryErrorCodes_def split: if_splits)

lemma index_bool_TemporarySet: "index_bool temporaryErrorCodes c = (c \<in> TemporarySet)"
  by (simp add: TemporarySet_def)

subsection \<open>The three paths through errInfo\<close>

text \<open>
  A call of \<^verbatim>\<open>errInfo\<close> takes one of three paths: the lookup panics and the deferred
  function recovers; the lookup finds no entry; the lookup finds one.
\<close>

lemma errInfo_cases:
  obtains (recovered) "\<not> hashable (errors_Root err)"
  | (missing) "hashable (errors_Root err)" "errorInfoTab (errors_Root err) = None"
  | (found) e where "errorInfoTab (errors_Root err) = Some e"
  using errorInfoTab_hashable by (cases "errorInfoTab (errors_Root err)") blast+

lemma errInfo_recovered:
  "\<not> hashable (errors_Root err) \<Longrightarrow>
   errInfo err = Inr (\<lparr>HTTPStatus = 500, ChainCode = ''CH000'', Message = ''Chain API Error'',
                       Detail = '''', Temporary = True\<rparr>, infoInternal)"
  by (simp add: errInfo_def errInfo_deferred_scope_def mapaccess2_def infoInternal_def)

lemma errInfo_missing:
  "hashable (errors_Root err) \<Longrightarrow> errorInfoTab (errors_Root err) = None \<Longrightarrow>
   errInfo err = Inr (\<lparr>HTTPStatus = 500, ChainCode = ''CH000'', Message = ''Chain API Error'',
                       Detail = errors_Detail err, Temporary = True\<rparr>, infoInternal)"
  by (simp add: errInfo_def errInfo_deferred_scope_def mapaccess2_def infoInternal_def
      index_bool_def temporaryErrorCodes_def)

lemma errInfo_found:
  "errorInfoTab (errors_Root err) = Some e \<Longrightarrow>
   errInfo err = Inr (\<lparr>HTTPStatus = HTTPStatus e, ChainCode = ChainCode e, Message = Message e,
                       Detail = errors_Detail err,
                       Temporary = (ChainCode e \<in> TemporarySet)\<rparr>, e)"
  by (simp add: errInfo_def errInfo_deferred_scope_def mapaccess2_def errorInfoTab_hashable
      index_bool_TemporarySet)

subsection \<open>Calls and the package variables\<close>

text \<open>No statement of \<^verbatim>\<open>errInfo\<close> assigns a package variable.\<close>

lemma stmt_lookup_vars: "stmt_lookup root s = Inr (ok, s1) \<Longrightarrow> vars s1 = vars s"
  by (auto simp: stmt_lookup_def split: sum.splits option.splits)

lemma stmt_fallback_vars: "vars (stmt_fallback ok s) = vars s"
  by (simp add: stmt_fallback_def)

lemma stmt_body_vars: "vars (stmt_body err s) = vars s"
  by (simp add: stmt_body_def)

lemma stmt_recover_vars: "vars (stmt_recover s) = vars s"
  by (simp add: stmt_recover_def Let_def)

lemma errInfo_call_vars: "snd (errInfo_call g err) = g"
proof -
  let ?s0 = "\<lparr>vars = g, res_body = zero_detailedError, res_info = zero_errorInfo\<rparr>"
  show ?thesis
  proof (cases "stmt_lookup (errors_Root err) ?s0")
    case (Inl p)
    then show ?thesis
      by (simp add: errInfo_call_def Let_def stmt_recover_vars)
  next
    case (Inr r)
    obtain ok s1 where r: "r = (ok, s1)"
      by (cases r)
    from Inr r have "vars s1 = g"
      using stmt_lookup_vars [of "errors_Root err" ?s0 ok s1] by simp
    with Inr r show ?thesis
      by (simp add: errInfo_call_def Let_def stmt_body_vars stmt_fallback_vars)
  qed
qed

lemma errInfo_calls_map: "errInfo_calls g es = (map (\<lambda>e. fst (errInfo_call g e)) es, g)"
proof (induction es)
  case Nil
  show ?case by simp
next
  case (Cons e es)
  obtain r where c: "errInfo_call g e = (r, g)"
    using errInfo_call_vars [of g e] by (cases "errInfo_call g e") simp
  with Cons show ?case
    by simp
qed

text \<open>From the initial values, a call returns what \<open>errInfo\<close> returns.\<close>

lemma errInfo_call_init: "errInfo err = Inr (fst (errInfo_call package_init err))"
proof (cases err rule: errInfo_cases)
  case recovered
  then show ?thesis
    by (simp add: errInfo_recovered errInfo_call_def stmt_lookup_def mapaccess2_def
        stmt_recover_def package_init_def infoInternal_def Let_def)
next
  case missing
  then show ?thesis
    by (simp add: errInfo_missing errInfo_call_def stmt_lookup_def mapaccess2_def
        stmt_fallback_def stmt_body_def package_init_def infoInternal_def Let_def
        index_bool_def temporaryErrorCodes_def)
next
  case (found e)
  then show ?thesis
    by (simp add: errInfo_found errInfo_call_def stmt_lookup_def mapaccess2_def
        errorInfoTab_hashable stmt_fallback_def stmt_body_def package_init_def Let_def
        index_bool_TemporarySet)
qed

subsection \<open>The claims\<close>



text \<open>
  C2 (unregistered root cause), as the spec states it: the entry returned is
  500, CH000, "API Error". The code's \<^verbatim>\<open>infoInternal\<close> carries the message
  "Chain API Error", so the claim fails at any unregistered error.
\<close>

theorem errInfo_unregistered_counterexample:
  "hashable (errors_Root (Terminal (Comparable ''unregistered''))) \<and>
   errorInfoTab (errors_Root (Terminal (Comparable ''unregistered''))) = None \<and>
   errInfo (Terminal (Comparable ''unregistered'')) =
     Inr (\<lparr>HTTPStatus = 500, ChainCode = ''CH000'', Message = ''Chain API Error'',
            Detail = '''', Temporary = True\<rparr>,
          \<lparr>HTTPStatus = 500, ChainCode = ''CH000'', Message = ''Chain API Error''\<rparr>) \<and>
   errInfo (Terminal (Comparable ''unregistered'')) \<noteq>
     Inr (\<lparr>HTTPStatus = 500, ChainCode = ''CH000'', Message = ''API Error'',
            Detail = '''', Temporary = True\<rparr>,
          \<lparr>HTTPStatus = 500, ChainCode = ''CH000'', Message = ''API Error''\<rparr>)"
  by (simp add: errInfo_def errInfo_deferred_scope_def mapaccess2_def hashable_def
      errorInfoTab_def errorInfoTab_entries_def errorInfoTab_blocks_def infoInternal_def
      index_bool_def temporaryErrorCodes_def)

text \<open>
  C2, amended. For every error value whose root cause can be looked up and is not in the
  table, \<^verbatim>\<open>errInfo\<close> returns the entry 500, CH000, "Chain API Error", with
  Temporary true and Detail the detail text of the error passed in.
\<close>

theorem errInfo_unregistered:
  "hashable (errors_Root err) \<Longrightarrow> errorInfoTab (errors_Root err) = None \<Longrightarrow>
   errInfo err =
     Inr (\<lparr>HTTPStatus = 500, ChainCode = ''CH000'', Message = ''Chain API Error'',
            Detail = errors_Detail err, Temporary = True\<rparr>,
          \<lparr>HTTPStatus = 500, ChainCode = ''CH000'', Message = ''Chain API Error''\<rparr>)"
  by (simp add: errInfo_missing infoInternal_def)

theorem errInfo_unregistered_witness:
  "hashable (errors_Root (Wrap (Terminal (Comparable ''disk full'')) (Some ''while saving''))) \<and>
   errorInfoTab (errors_Root (Wrap (Terminal (Comparable ''disk full'')) (Some ''while saving'')))
     = None \<and>
   errInfo (Wrap (Terminal (Comparable ''disk full'')) (Some ''while saving'')) =
     Inr (\<lparr>HTTPStatus = 500, ChainCode = ''CH000'', Message = ''Chain API Error'',
            Detail = ''while saving'', Temporary = True\<rparr>,
          \<lparr>HTTPStatus = 500, ChainCode = ''CH000'', Message = ''Chain API Error''\<rparr>)"
proof -
  let ?e = "Wrap (Terminal (Comparable ''disk full'')) (Some ''while saving'')"
  have h: "hashable (errors_Root ?e)"
    by (simp add: hashable_def)
  have n: "errorInfoTab (errors_Root ?e) = None"
    by (simp add: errorInfoTab_def errorInfoTab_entries_def errorInfoTab_blocks_def)
  show ?thesis
    using h n errInfo_unregistered [OF h n] by simp
qed

text \<open>
  C3 (registered root cause). For every entry \<open>(k, e)\<close> of the table, \<^verbatim>\<open>errInfo\<close> on
  \<open>k\<close> itself returns the status, code and message of \<open>e\<close>, Detail equal to the detail
  text of \<open>k\<close>, and Temporary equal to the membership of the code of \<open>e\<close> in TemporarySet.
\<close>

theorem errInfo_registered:
  "(k, e) \<in> set errorInfoTab_entries \<Longrightarrow>
   errInfo (Terminal k) =
     Inr (\<lparr>HTTPStatus = HTTPStatus e, ChainCode = ChainCode e, Message = Message e,
            Detail = errors_Detail (Terminal k),
            Temporary = (ChainCode e \<in> TemporarySet)\<rparr>, e)"
  by (rule errInfo_found) (simp add: errorInfoTab_entry)

theorem errInfo_registered_witness:
  "(errLeaderElection,
      \<lparr>HTTPStatus = 503, ChainCode = ''CH008'',
         Message = ''Electing a new leader for the core; try again soon''\<rparr>)
     \<in> set errorInfoTab_entries \<and>
   errInfo (Terminal errLeaderElection) =
     Inr (\<lparr>HTTPStatus = 503, ChainCode = ''CH008'',
            Message = ''Electing a new leader for the core; try again soon'',
            Detail = '''', Temporary = False\<rparr>,
          \<lparr>HTTPStatus = 503, ChainCode = ''CH008'',
            Message = ''Electing a new leader for the core; try again soon''\<rparr>)"
proof -
  have m: "(errLeaderElection,
      \<lparr>HTTPStatus = 503, ChainCode = ''CH008'',
         Message = ''Electing a new leader for the core; try again soon''\<rparr>)
     \<in> set errorInfoTab_entries"
    by (simp add: errorInfoTab_entries_def errorInfoTab_blocks_def)
  show ?thesis
    using m errInfo_registered [OF m] by (simp add: TemporarySet_eq)
qed

text \<open>
  C4 (wrapped registered root cause). For every entry \<open>(k, e)\<close> of the table and every
  text, \<^verbatim>\<open>errInfo\<close> on \<open>k\<close> wrapped with that text as detail returns the status, code
  and message of \<open>e\<close>, and Detail equal to the text attached by the wrapping: the detail
  is read from the error passed in, the entry from its root.
\<close>

theorem errInfo_wrapped_registered:
  "(k, e) \<in> set errorInfoTab_entries \<Longrightarrow>
   errors_Root (Wrap (Terminal k) (Some extraDetail)) = k \<and>
   errors_Detail (Wrap (Terminal k) (Some extraDetail)) = extraDetail \<and>
   errInfo (Wrap (Terminal k) (Some extraDetail)) =
     Inr (\<lparr>HTTPStatus = HTTPStatus e, ChainCode = ChainCode e, Message = Message e,
            Detail = extraDetail,
            Temporary = (ChainCode e \<in> TemporarySet)\<rparr>, e)"
  using errInfo_found [of "Wrap (Terminal k) (Some extraDetail)" e]
  by (simp add: errorInfoTab_entry)

theorem errInfo_wrapped_registered_witness:
  "(utxodb_ErrReserved,
      \<lparr>HTTPStatus = 400, ChainCode = ''CH761'',
         Message = ''Some outputs are reserved; try again''\<rparr>)
     \<in> set errorInfoTab_entries \<and>
   errors_Detail (Terminal utxodb_ErrReserved) = '''' \<and>
   errInfo (Wrap (Terminal utxodb_ErrReserved) (Some ''output 3 of tx 17'')) =
     Inr (\<lparr>HTTPStatus = 400, ChainCode = ''CH761'',
            Message = ''Some outputs are reserved; try again'',
            Detail = ''output 3 of tx 17'', Temporary = True\<rparr>,
          \<lparr>HTTPStatus = 400, ChainCode = ''CH761'',
            Message = ''Some outputs are reserved; try again''\<rparr>)"
proof -
  have m: "(utxodb_ErrReserved,
      \<lparr>HTTPStatus = 400, ChainCode = ''CH761'',
         Message = ''Some outputs are reserved; try again''\<rparr>)
     \<in> set errorInfoTab_entries"
    by (simp add: errorInfoTab_entries_def errorInfoTab_blocks_def)
  show ?thesis
    using m errInfo_wrapped_registered [OF m, of "''output 3 of tx 17''"]
    by (simp add: TemporarySet_eq)
qed

text \<open>
  C5 (the Temporary flag). TemporarySet is exactly CH000, CH001 and CH761, and in every
  call the Temporary flag of the body equals the membership of the returned entry's code
  in it, on the recovery path too. The HTTP status does not decide the flag: two entries
  with status 400 differ in it, and entries with status 408 and 400 share it.
\<close>

theorem errInfo_temporary:
  "TemporarySet = {''CH000'', ''CH001'', ''CH761''} \<and>
   (\<exists>body info. errInfo err = Inr (body, info) \<and>
      Temporary body = (ChainCode info \<in> TemporarySet)) \<and>
   (\<exists>b1 i1 b2 i2.
      errInfo (Terminal utxodb_ErrInsufficient) = Inr (b1, i1) \<and>
      errInfo (Terminal utxodb_ErrReserved) = Inr (b2, i2) \<and>
      HTTPStatus i1 = HTTPStatus i2 \<and> Temporary b1 \<noteq> Temporary b2) \<and>
   (\<exists>b1 i1 b2 i2.
      errInfo (Terminal context_DeadlineExceeded) = Inr (b1, i1) \<and>
      errInfo (Terminal utxodb_ErrReserved) = Inr (b2, i2) \<and>
      HTTPStatus i1 \<noteq> HTTPStatus i2 \<and> Temporary b1 = Temporary b2)"
proof (intro conjI)
  show "TemporarySet = {''CH000'', ''CH001'', ''CH761''}"
    by (rule TemporarySet_eq)
  show "\<exists>body info. errInfo err = Inr (body, info) \<and>
      Temporary body = (ChainCode info \<in> TemporarySet)"
    by (cases err rule: errInfo_cases)
      (simp_all add: errInfo_recovered errInfo_missing errInfo_found TemporarySet_eq
        infoInternal_def)
  have ins: "errorInfoTab (errors_Root (Terminal utxodb_ErrInsufficient)) =
      Some \<lparr>HTTPStatus = 400, ChainCode = ''CH760'', Message = ''Insufficient funds for tx''\<rparr>"
    by (simp add: errorInfoTab_def errorInfoTab_entries_def errorInfoTab_blocks_def)
  have res: "errorInfoTab (errors_Root (Terminal utxodb_ErrReserved)) =
      Some \<lparr>HTTPStatus = 400, ChainCode = ''CH761'',
        Message = ''Some outputs are reserved; try again''\<rparr>"
    by (simp add: errorInfoTab_def errorInfoTab_entries_def errorInfoTab_blocks_def)
  have dl: "errorInfoTab (errors_Root (Terminal context_DeadlineExceeded)) =
      Some \<lparr>HTTPStatus = 408, ChainCode = ''CH001'', Message = ''Request timed out''\<rparr>"
    by (simp add: errorInfoTab_def errorInfoTab_entries_def errorInfoTab_blocks_def)
  show "\<exists>b1 i1 b2 i2.
      errInfo (Terminal utxodb_ErrInsufficient) = Inr (b1, i1) \<and>
      errInfo (Terminal utxodb_ErrReserved) = Inr (b2, i2) \<and>
      HTTPStatus i1 = HTTPStatus i2 \<and> Temporary b1 \<noteq> Temporary b2"
    by (simp add: errInfo_found [OF ins] errInfo_found [OF res] TemporarySet_eq)
  show "\<exists>b1 i1 b2 i2.
      errInfo (Terminal context_DeadlineExceeded) = Inr (b1, i1) \<and>
      errInfo (Terminal utxodb_ErrReserved) = Inr (b2, i2) \<and>
      HTTPStatus i1 \<noteq> HTTPStatus i2 \<and> Temporary b1 = Temporary b2"
    by (simp add: errInfo_found [OF dl] errInfo_found [OF res] TemporarySet_eq)
qed

text \<open>
  C6 (namespaces). Over the whole table, no two entries have the same code, and the
  numeric part of every code lies in the range of the namespace whose block holds the
  entry.
\<close>

theorem errorInfoTab_namespaces:
  "distinct (map (\<lambda>(k, e). ChainCode e) errorInfoTab_entries) \<and>
   list_all (\<lambda>(ns, entries). list_all (\<lambda>(k, e). in_namespace ns (ChainCode e)) entries)
     errorInfoTab_blocks"
proof
  show "distinct (map (\<lambda>(k, e). ChainCode e) errorInfoTab_entries)"
    by (simp add: errorInfoTab_entries_def errorInfoTab_blocks_def)
  show "list_all (\<lambda>(ns, entries). list_all (\<lambda>(k, e). in_namespace ns (ChainCode e)) entries)
     errorInfoTab_blocks"
    by (simp add: errorInfoTab_blocks_def in_namespace_def code_number_def digit_def)
qed

text \<open>
  C7 (scenarios). The four scenarios of the spec: a deadline exceeded, insufficient
  funds, reserved outputs and a bad xpub, each passed unwrapped.
\<close>

theorem errInfo_scenarios:
  "errInfo (Terminal context_DeadlineExceeded) =
     Inr (\<lparr>HTTPStatus = 408, ChainCode = ''CH001'', Message = ''Request timed out'',
            Detail = '''', Temporary = True\<rparr>,
          \<lparr>HTTPStatus = 408, ChainCode = ''CH001'', Message = ''Request timed out''\<rparr>)
   \<and> errInfo (Terminal utxodb_ErrInsufficient) =
     Inr (\<lparr>HTTPStatus = 400, ChainCode = ''CH760'', Message = ''Insufficient funds for tx'',
            Detail = '''', Temporary = False\<rparr>,
          \<lparr>HTTPStatus = 400, ChainCode = ''CH760'', Message = ''Insufficient funds for tx''\<rparr>)
   \<and> errInfo (Terminal utxodb_ErrReserved) =
     Inr (\<lparr>HTTPStatus = 400, ChainCode = ''CH761'',
            Message = ''Some outputs are reserved; try again'',
            Detail = '''', Temporary = True\<rparr>,
          \<lparr>HTTPStatus = 400, ChainCode = ''CH761'',
            Message = ''Some outputs are reserved; try again''\<rparr>)
   \<and> errInfo (Terminal signers_ErrBadXPub) =
     Inr (\<lparr>HTTPStatus = 400, ChainCode = ''CH201'', Message = ''Invalid xpub format'',
            Detail = '''', Temporary = False\<rparr>,
          \<lparr>HTTPStatus = 400, ChainCode = ''CH201'', Message = ''Invalid xpub format''\<rparr>)"
  by (simp add: errInfo_def errInfo_deferred_scope_def mapaccess2_def hashable_def
      errorInfoTab_def errorInfoTab_entries_def errorInfoTab_blocks_def
      index_bool_def temporaryErrorCodes_def)

text \<open>
  C8 (determinism). A call of \<^verbatim>\<open>errInfo\<close>, started from any values of the package
  variables, leaves them as they were; so two calls on one error value, one after the
  other, return the same body and the same entry, and in any sequence of calls each
  result is the one a single call on that error gives. Started from the initial values,
  the call returns what \<open>errInfo\<close> above returns.
\<close>

theorem errInfo_deterministic:
  "snd (errInfo_call g err) = g \<and>
   errInfo_calls g [err, err] = ([fst (errInfo_call g err), fst (errInfo_call g err)], g) \<and>
   errInfo_calls g es = (map (\<lambda>e. fst (errInfo_call g e)) es, g) \<and>
   errInfo err = Inr (fst (errInfo_call package_init err))"
proof (intro conjI)
  show "snd (errInfo_call g err) = g"
    by (rule errInfo_call_vars)
  show "errInfo_calls g es = (map (\<lambda>e. fst (errInfo_call g e)) es, g)"
    by (rule errInfo_calls_map)
  show "errInfo_calls g [err, err] = ([fst (errInfo_call g err), fst (errInfo_call g err)], g)"
    by (simp add: errInfo_calls_map)
  show "errInfo err = Inr (fst (errInfo_call package_init err))"
    by (rule errInfo_call_init)
qed

text \<open>
  C9 (the recovery path). Whenever the lookup panics, the statements after it do not
  run, and the body returned has the empty Detail and Temporary true: the detail text of
  the error is dropped. Whenever the lookup completes, Detail is the detail text of the
  error.
\<close>

theorem errInfo_recovery_path:
  "(mapaccess2 errorInfoTab (errors_Root err) = Inl p \<longrightarrow>
      errInfo_deferred_scope err (errors_Root err) = Inl p \<and>
      errInfo err =
        Inr (\<lparr>HTTPStatus = 500, ChainCode = ''CH000'', Message = ''Chain API Error'',
               Detail = '''', Temporary = True\<rparr>,
             \<lparr>HTTPStatus = 500, ChainCode = ''CH000'', Message = ''Chain API Error''\<rparr>)) \<and>
   (mapaccess2 errorInfoTab (errors_Root err) = Inr found \<longrightarrow>
      (\<exists>body info. errInfo err = Inr (body, info) \<and> Detail body = errors_Detail err))"
  by (simp add: errInfo_def errInfo_deferred_scope_def infoInternal_def Let_def)

theorem errInfo_recovery_path_witness:
  "mapaccess2 errorInfoTab
     (errors_Root (Wrap (Terminal (Unhashable ''sliceError'')) (Some ''lost text''))) =
     Inl HashOfUnhashableType \<and>
   errors_Detail (Wrap (Terminal (Unhashable ''sliceError'')) (Some ''lost text'')) =
     ''lost text'' \<and>
   errInfo (Wrap (Terminal (Unhashable ''sliceError'')) (Some ''lost text'')) =
     Inr (\<lparr>HTTPStatus = 500, ChainCode = ''CH000'', Message = ''Chain API Error'',
            Detail = '''', Temporary = True\<rparr>,
          \<lparr>HTTPStatus = 500, ChainCode = ''CH000'', Message = ''Chain API Error''\<rparr>) \<and>
   mapaccess2 errorInfoTab
     (errors_Root (Wrap (Terminal (Comparable ''plainError'')) (Some ''kept text''))) =
     Inr None \<and>
   (\<exists>body info.
      errInfo (Wrap (Terminal (Comparable ''plainError'')) (Some ''kept text'')) =
        Inr (body, info) \<and>
      Detail body = ''kept text'')"
proof -
  let ?a = "Wrap (Terminal (Unhashable ''sliceError'')) (Some ''lost text'')"
  let ?b = "Wrap (Terminal (Comparable ''plainError'')) (Some ''kept text'')"
  have f: "mapaccess2 errorInfoTab (errors_Root ?a) = Inl HashOfUnhashableType"
    by (simp add: mapaccess2_def hashable_def)
  have g: "mapaccess2 errorInfoTab (errors_Root ?b) = Inr None"
    by (simp add: mapaccess2_def hashable_def errorInfoTab_def errorInfoTab_entries_def
        errorInfoTab_blocks_def)
  show ?thesis
    using f g
      errInfo_recovery_path [of ?a HashOfUnhashableType None]
      errInfo_recovery_path [of ?b HashOfUnhashableType None]
    by simp
qed

text \<open>
  C10 (the two results agree). For every error value, the \<^verbatim>\<open>errorInfo\<close> embedded in
  the body returned is the entry returned, whichever path the call takes.
\<close>

theorem errInfo_consistent:
  "\<exists>body info. errInfo err = Inr (body, info) \<and> errorInfo.truncate body = info"
  by (cases err rule: errInfo_cases)
    (simp_all add: errInfo_recovered errInfo_missing errInfo_found errorInfo.truncate_def
      infoInternal_def)

end
